theory Spec2Isabelle
  imports Main "HOL-Library.Sublist"
begin

section \<open>The launcher guard of run_avantixrpa_gui.pyw\<close>

text \<open>
  The script binds four names by its imports (\<open>main\<close>, \<open>traceback\<close>, \<open>tk\<close>,
  \<open>messagebox\<close>) and, when run as a program, executes

  \<^verbatim>\<open>
    try:
        main()
    except Exception:
        err = traceback.format_exc()
        root = tk.Tk()
        root.withdraw()
        messagebox.showerror(<title>, <two fixed lines> f"{err}")
        root.destroy()
  \<close>

  The model below is this block. The entry point and the toolkit are outside the
  repository: what they do is an input of the model (the record \<open>env\<close>), and each
  call of the block is a function on an explicit state that also logs the call.
\<close>

subsection \<open>Python strings\<close>

text \<open>
  A Python \<open>str\<close> is a sequence of Unicode code points. The dialog texts are
  Japanese, so a code point is a natural number and not an 8-bit character.
\<close>

type_synonym pystr = "nat list"

definition ascii :: "string \<Rightarrow> pystr" where
  "ascii s = map of_char s"

text \<open>The line feed, written \<^verbatim>\<open>\n\<close> in the source.\<close>

definition NL :: nat where
  "NL = 10"

subsection \<open>Exceptions and the traceback text\<close>

text \<open>
  The classes of the built-in hierarchy that matter here: \<open>SystemExit\<close>,
  \<open>KeyboardInterrupt\<close> and \<open>GeneratorExit\<close> derive from \<open>BaseException\<close> directly,
  \<open>RuntimeError\<close> derives from \<open>Exception\<close>, and \<open>Subclass n c\<close> is a class printed
  as \<open>n\<close> whose base is \<open>c\<close>.
\<close>

datatype pyclass =
    BaseException
  | SystemExit
  | KeyboardInterrupt
  | GeneratorExit
  | Exception
  | RuntimeError
  | Subclass pystr pyclass

text \<open>\<^verbatim>\<open>issubclass(c, Exception)\<close>\<close>

fun issubclass_Exception :: "pyclass \<Rightarrow> bool" where
  "issubclass_Exception BaseException = False"
| "issubclass_Exception SystemExit = False"
| "issubclass_Exception KeyboardInterrupt = False"
| "issubclass_Exception GeneratorExit = False"
| "issubclass_Exception Exception = True"
| "issubclass_Exception RuntimeError = True"
| "issubclass_Exception (Subclass n c) = issubclass_Exception c"

text \<open>The name the traceback module prints for a class.\<close>

fun class_name :: "pyclass \<Rightarrow> pystr" where
  "class_name BaseException = ascii ''BaseException''"
| "class_name SystemExit = ascii ''SystemExit''"
| "class_name KeyboardInterrupt = ascii ''KeyboardInterrupt''"
| "class_name GeneratorExit = ascii ''GeneratorExit''"
| "class_name Exception = ascii ''Exception''"
| "class_name RuntimeError = ascii ''RuntimeError''"
| "class_name (Subclass n c) = n"

text \<open>
  A raised exception: its class, \<open>str(e)\<close>, and the formatted stack entries of its
  traceback (the \<^verbatim>\<open>File "...", line ..., in ...\<close> lines).
\<close>

record py_exception =
  exc_class :: pyclass
  exc_str :: pystr
  exc_stack :: pystr

text \<open>\<^verbatim>\<open>isinstance(e, Exception)\<close>, the test of the clause \<^verbatim>\<open>except Exception:\<close>.\<close>

definition isinstance_Exception :: "py_exception \<Rightarrow> bool" where
  "isinstance_Exception e = issubclass_Exception (exc_class e)"

text \<open>
  \<^verbatim>\<open>traceback.format_exc()\<close> of the standard library, for the exception being
  handled: the header line, the stack entries, and the line \<open>Class: message\<close> (the
  class alone when the message is empty). Chained exceptions and notes are left out.
\<close>

definition format_exception_only :: "py_exception \<Rightarrow> pystr" where
  "format_exception_only e =
     class_name (exc_class e)
     @ (if exc_str e = [] then [] else ascii '': '' @ exc_str e)
     @ [NL]"

definition format_exc :: "py_exception \<Rightarrow> pystr" where
  "format_exc e =
     ascii ''Traceback (most recent call last):'' @ [NL]
     @ exc_stack e
     @ format_exception_only e"

subsection \<open>The toolkit state and the calls of the guard\<close>

datatype wm_state = Normal | Withdrawn

datatype call =
    Call_main
  | Call_format_exc
  | Call_Tk
  | Call_withdraw nat
  | Call_showerror pystr pystr
  | Call_destroy nat

text \<open>
  The values the script's names hold: something imported, a string, or a window.
\<close>

datatype pyvalue = Py_imported | Py_str pystr | Py_window nat

text \<open>
  \<open>toplevels\<close>: the live top-level windows (a handle and the window-manager state);
  \<open>displayed\<close>: the windows that have been put on the screen so far, in order;
  \<open>calls\<close>: the calls the guard has made, oldest first;
  \<open>namespace\<close>: the script's module-level names and their values. The block is
  at module level, so \<open>err\<close> and \<open>root\<close> are names of the module.
\<close>

record world =
  toplevels :: "(nat \<times> wm_state) list"
  displayed :: "nat list"
  calls :: "call list"
  namespace :: "(string \<times> pyvalue) list"

text \<open>The names bound when the block starts, by lines 1 to 4 of the script.\<close>

definition script_namespace :: "(string \<times> pyvalue) list" where
  "script_namespace =
     [(''main'', Py_imported), (''traceback'', Py_imported), (''tk'', Py_imported),
      (''messagebox'', Py_imported)]"

text \<open>An assignment \<^verbatim>\<open>k = v\<close>: a bound name gets the new value, a new name is added.\<close>

fun assign :: "string \<Rightarrow> pyvalue \<Rightarrow> (string \<times> pyvalue) list \<Rightarrow> (string \<times> pyvalue) list" where
  "assign k v [] = [(k, v)]"
| "assign k v ((k', v') # ns) = (if k' = k then (k, v) # ns else (k', v') # assign k v ns)"

definition bind_var :: "string \<Rightarrow> pyvalue \<Rightarrow> world \<Rightarrow> world" where
  "bind_var k v w = w\<lparr>namespace := assign k v (namespace w)\<rparr>"

text \<open>
  What the guard's surroundings do: how \<open>main()\<close> ends (\<open>None\<close>: it returns) and
  the toolkit state it leaves behind, and for each toolkit call of the handler whether it
  raises. \<open>showerror\<close> returns a string when the dialog is dismissed.
\<close>

record env =
  main_result :: "py_exception option"
  main_toplevels :: "(nat \<times> wm_state) list"
  main_displayed :: "nat list"
  Tk_raises :: "py_exception option"
  withdraw_raises :: "py_exception option"
  showerror_result :: "py_exception + pystr"
  destroy_raises :: "py_exception option"

datatype outcome =
    Completed
  | Propagated py_exception
  | Handler_raised py_exception

definition log_call :: "call \<Rightarrow> world \<Rightarrow> world" where
  "log_call c w = w\<lparr>calls := calls w @ [c]\<rparr>"

text \<open>A handle that no live window has and that was never on the screen.\<close>

definition fresh_handle :: "(nat \<times> wm_state) list \<Rightarrow> nat list \<Rightarrow> nat" where
  "fresh_handle tls ds = Suc (foldr max (map fst tls @ ds) 0)"

text \<open>
  \<^verbatim>\<open>tk.Tk()\<close> creates a top-level window in the normal state; the window is put on
  the screen only when the event loop next runs.
\<close>

definition tk_Tk :: "env \<Rightarrow> world \<Rightarrow> (py_exception + nat) \<times> world" where
  "tk_Tk env w =
     (let w' = log_call Call_Tk w in
      case Tk_raises env of
        Some x \<Rightarrow> (Inl x, w')
      | None \<Rightarrow>
          (let r = fresh_handle (toplevels w) (displayed w)
           in (Inr r, w'\<lparr>toplevels := toplevels w @ [(r, Normal)]\<rparr>)))"

definition withdraw :: "env \<Rightarrow> nat \<Rightarrow> world \<Rightarrow> (py_exception + unit) \<times> world" where
  "withdraw env r w =
     (let w' = log_call (Call_withdraw r) w in
      case withdraw_raises env of
        Some x \<Rightarrow> (Inl x, w')
      | None \<Rightarrow>
          (Inr (), w'\<lparr>toplevels :=
             map (\<lambda>(h, s). if h = r then (h, Withdrawn) else (h, s)) (toplevels w)\<rparr>))"

text \<open>
  \<^verbatim>\<open>messagebox.showerror(title, message)\<close> shows a modal dialog and runs the event
  loop until it is dismissed; the event loop puts on the screen every live window in the
  normal state that is not there yet.
\<close>

definition showerror ::
  "env \<Rightarrow> pystr \<Rightarrow> pystr \<Rightarrow> world \<Rightarrow> (py_exception + pystr) \<times> world" where
  "showerror env title message w =
     (let w' = log_call (Call_showerror title message) w in
      case showerror_result env of
        Inl x \<Rightarrow> (Inl x, w')
      | Inr answer \<Rightarrow>
          (Inr answer, w'\<lparr>displayed :=
             displayed w
             @ map fst (filter (\<lambda>(h, s). s = Normal \<and> h \<notin> set (displayed w))
                          (toplevels w))\<rparr>))"

definition destroy :: "env \<Rightarrow> nat \<Rightarrow> world \<Rightarrow> (py_exception + unit) \<times> world" where
  "destroy env r w =
     (let w' = log_call (Call_destroy r) w in
      case destroy_raises env of
        Some x \<Rightarrow> (Inl x, w')
      | None \<Rightarrow>
          (Inr (), w'\<lparr>toplevels := filter (\<lambda>(h, s). h \<noteq> r) (toplevels w)\<rparr>))"

subsection \<open>The dialog texts\<close>

text \<open>The title: \<open>AVANTIXRPA\<close>, a space, and five Japanese characters.\<close>

definition startup_error_ja :: pystr where
  "startup_error_ja = [0x8D77, 0x52D5, 0x30A8, 0x30E9, 0x30FC]"

definition dialog_title :: pystr where
  "dialog_title = ascii ''AVANTIXRPA '' @ startup_error_ja"

definition message_line1 :: pystr where
  "message_line1 =
     ascii ''AVANTIXRPA ''
     @ [0x306E, 0x8D77, 0x52D5, 0x4E2D, 0x306B, 0x30A8, 0x30E9, 0x30FC, 0x304C,
        0x767A, 0x751F, 0x3057, 0x307E, 0x3057, 0x305F, 0x3002]"

definition message_line2 :: pystr where
  "message_line2 =
     [0x8A73, 0x3057, 0x304F, 0x306F]
     @ ascii '' logs/avantixrpa.log ''
     @ [0x3092, 0x78BA, 0x8A8D, 0x3057, 0x3066, 0x304F, 0x3060, 0x3055, 0x3044, 0x3002]"

text \<open>
  The second argument of \<open>showerror\<close>: three adjacent literals, the last one the
  f-string \<^verbatim>\<open>f"{err}"\<close>, which is \<open>err\<close> itself.
\<close>

definition dialog_message :: "pystr \<Rightarrow> pystr" where
  "dialog_message err = message_line1 @ [NL] @ message_line2 @ [NL, NL] @ err"

subsection \<open>The guard\<close>

definition guard :: "env \<Rightarrow> outcome \<times> world" where
  "guard env =
     (let w0 = \<lparr>toplevels = main_toplevels env, displayed = main_displayed env,
                calls = [Call_main], namespace = script_namespace\<rparr> in
      case main_result env of
        None \<Rightarrow> (Completed, w0)
      | Some e \<Rightarrow>
          if \<not> isinstance_Exception e then (Propagated e, w0)
          else
            (let err = format_exc e;
                 w1 = bind_var ''err'' (Py_str err) (log_call Call_format_exc w0) in
             (case tk_Tk env w1 of
                (Inl x, w2) \<Rightarrow> (Handler_raised x, w2)
              | (Inr root, w2) \<Rightarrow>
                  (case withdraw env root (bind_var ''root'' (Py_window root) w2) of
                     (Inl x, w3) \<Rightarrow> (Handler_raised x, w3)
                   | (Inr _, w3) \<Rightarrow>
                       (case showerror env dialog_title (dialog_message err) w3 of
                          (Inl x, w4) \<Rightarrow> (Handler_raised x, w4)
                        | (Inr _, w4) \<Rightarrow>
                            (case destroy env root w4 of
                               (Inl x, w5) \<Rightarrow> (Handler_raised x, w5)
                             | (Inr _, w5) \<Rightarrow> (Completed, w5)))))))"

subsection \<open>What a run has done\<close>

text \<open>The error dialogs a run has invoked, as (title, message) pairs.\<close>

fun dialog_of :: "call \<Rightarrow> (pystr \<times> pystr) list" where
  "dialog_of (Call_showerror t b) = [(t, b)]"
| "dialog_of _ = []"

definition dialogs :: "world \<Rightarrow> (pystr \<times> pystr) list" where
  "dialogs w = concat (map dialog_of (calls w))"



text \<open>Every toolkit call of the handler returns: the handler runs to its last line.\<close>

definition handler_returns :: "env \<Rightarrow> bool" where
  "handler_returns env =
     (Tk_raises env = None \<and> withdraw_raises env = None
      \<and> \<not> isl (showerror_result env) \<and> destroy_raises env = None)"

text \<open>The handle \<open>tk.Tk()\<close> gives the host window when the handler creates it.\<close>

definition host_handle :: "env \<Rightarrow> nat" where
  "host_handle env = fresh_handle (main_toplevels env) (main_displayed env)"

subsection \<open>Concrete runs\<close>

text \<open>\<^verbatim>\<open>raise RuntimeError("boom")\<close> inside \<open>main()\<close>.\<close>

definition boom :: py_exception where
  \<open>boom = \<lparr>exc_class = RuntimeError, exc_str = ascii ''boom'',
            exc_stack =
              ascii ''  File "run_avantixrpa_gui.pyw", line 8, in <module>'' @ [NL]
              @ ascii ''    main()'' @ [NL]
              @ ascii ''  File "avantixrpa/ui/main_window.py", line 1, in main'' @ [NL]
              @ ascii ''    raise RuntimeError("boom")'' @ [NL]\<rparr>\<close>

definition system_exit :: py_exception where
  "system_exit = \<lparr>exc_class = SystemExit, exc_str = [], exc_stack = []\<rparr>"

definition keyboard_interrupt :: py_exception where
  "keyboard_interrupt = \<lparr>exc_class = KeyboardInterrupt, exc_str = [], exc_stack = []\<rparr>"


text \<open>
  An environment in which \<open>main()\<close> ends as given and leaves no window, and every
  toolkit call returns.
\<close>

definition quiet_env :: "py_exception option \<Rightarrow> env" where
  "quiet_env r =
     \<lparr>main_result = r, main_toplevels = [], main_displayed = [],
      Tk_raises = None, withdraw_raises = None,
      showerror_result = Inr (ascii ''ok''), destroy_raises = None\<rparr>"




section \<open>Properties\<close>

subsection \<open>Fresh handles\<close>

lemma foldr_max_ge: "x \<in> set xs \<Longrightarrow> x \<le> foldr max xs (0::nat)"
  by (induction xs) auto

lemma fresh_handle_toplevels: "(h, s) \<in> set tls \<Longrightarrow> h < fresh_handle tls ds"
  using foldr_max_ge [of h "map fst tls @ ds"] by (force simp: fresh_handle_def)


lemma withdraw_fresh:
  "map (\<lambda>(h, s). if h = fresh_handle tls ds then (h, Withdrawn) else (h, s)) tls = tls"
  by (rule map_idI) (auto dest: fresh_handle_toplevels)

lemma destroy_fresh: "filter (\<lambda>(h, s). h \<noteq> fresh_handle tls ds) tls = tls"
  by (rule filter_True) (auto dest: fresh_handle_toplevels)

subsection \<open>The three ways through the guard\<close>

lemma guard_returned:
  "main_result env = None \<Longrightarrow>
   guard env =
     (Completed,
      \<lparr>toplevels = main_toplevels env, displayed = main_displayed env, calls = [Call_main],
       namespace = script_namespace\<rparr>)"
  by (simp add: guard_def)

lemma guard_uncaught:
  "main_result env = Some e \<Longrightarrow> \<not> isinstance_Exception e \<Longrightarrow>
   guard env =
     (Propagated e,
      \<lparr>toplevels = main_toplevels env, displayed = main_displayed env, calls = [Call_main],
       namespace = script_namespace\<rparr>)"
  by (simp add: guard_def)

lemma guard_handled:
  "main_result env = Some e \<Longrightarrow> isinstance_Exception e \<Longrightarrow> handler_returns env \<Longrightarrow>
   guard env =
     (Completed,
      \<lparr>toplevels = main_toplevels env,
       displayed = main_displayed env
                   @ map fst (filter (\<lambda>(h, s). s = Normal \<and> h \<notin> set (main_displayed env))
                                (main_toplevels env)),
       calls = [Call_main, Call_format_exc, Call_Tk, Call_withdraw (host_handle env),
                Call_showerror dialog_title (dialog_message (format_exc e)),
                Call_destroy (host_handle env)],
       namespace = script_namespace
                   @ [(''err'', Py_str (format_exc e)),
                      (''root'', Py_window (host_handle env))]\<rparr>)"
  by (cases "showerror_result env")
     (simp_all add: guard_def handler_returns_def host_handle_def tk_Tk_def withdraw_def
        showerror_def destroy_def log_call_def bind_var_def script_namespace_def Let_def
        withdraw_fresh destroy_fresh)

text \<open>When a toolkit call of the handler raises, the run stops there.\<close>

lemma guard_dialogs:
  "main_result env = Some e \<Longrightarrow> isinstance_Exception e \<Longrightarrow>
   dialogs (snd (guard env)) =
     (if Tk_raises env = None \<and> withdraw_raises env = None
      then [(dialog_title, dialog_message (format_exc e))] else [])"
  by (auto simp: guard_def dialogs_def tk_Tk_def withdraw_def showerror_def destroy_def
        log_call_def bind_var_def Let_def split: option.splits sum.splits)

lemma guard_dialogs_uncaught:
  "main_result env = Some e \<Longrightarrow> \<not> isinstance_Exception e \<Longrightarrow>
   dialogs (snd (guard env)) = []"
  by (simp add: guard_uncaught dialogs_def)




subsection \<open>The texts\<close>

lemma log_path_in_message: "sublist (ascii ''logs/avantixrpa.log'') (dialog_message err)"
proof -
  have "dialog_message err =
        (message_line1 @ [NL] @ [0x8A73, 0x3057, 0x304F, 0x306F] @ ascii '' '')
        @ ascii ''logs/avantixrpa.log''
        @ (ascii '' ''
           @ [0x3092, 0x78BA, 0x8A8D, 0x3057, 0x3066, 0x304F, 0x3060, 0x3055, 0x3044, 0x3002]
           @ [NL, NL] @ err)"
    by (simp add: dialog_message_def message_line2_def ascii_def)
  then show ?thesis
    unfolding sublist_def by blast
qed

lemma err_in_message: "sublist err (dialog_message err)"
proof -
  have "dialog_message err = (message_line1 @ [NL] @ message_line2 @ [NL, NL]) @ err @ []"
    by (simp add: dialog_message_def)
  then show ?thesis
    unfolding sublist_def by blast
qed

lemma str_in_format_exc: "sublist (exc_str e) (format_exc e)"
proof (cases "exc_str e = []")
  case True
  then show ?thesis by simp
next
  case False
  then have "format_exc e =
      (ascii ''Traceback (most recent call last):'' @ [NL] @ exc_stack e
       @ class_name (exc_class e) @ ascii '': '') @ exc_str e @ [NL]"
    by (simp add: format_exc_def format_exception_only_def)
  then show ?thesis
    unfolding sublist_def by blast
qed

lemma sublist_trans: "sublist xs ys \<Longrightarrow> sublist ys zs \<Longrightarrow> sublist xs zs"
  by (meson sublist_order.order_trans)

subsection \<open>The concrete runs\<close>

lemma boom_caught: "isinstance_Exception boom"
  by (simp add: isinstance_Exception_def boom_def)

lemma quiet_env_returns: "handler_returns (quiet_env r)"
  by (simp add: handler_returns_def quiet_env_def)

lemma quiet_env_main: "main_result (quiet_env r) = r"
  by (simp add: quiet_env_def)





section \<open>The claims\<close>

subsection \<open>The entry point returns\<close>

text \<open>
  C4. If \<open>main()\<close> returns normally the guard does nothing more: the only call made
  is the one to \<open>main\<close>, no dialog is invoked, no window is created, the toolkit state
  is as \<open>main\<close> left it, no name is bound, and the script runs off its end.
\<close>

theorem normal_return_no_action:
  assumes "main_result env = None"
  shows "fst (guard env) = Completed
       \<and> calls (snd (guard env)) = [Call_main]
       \<and> dialogs (snd (guard env)) = []
       \<and> count_list (calls (snd (guard env))) Call_Tk = 0
       \<and> toplevels (snd (guard env)) = main_toplevels env
       \<and> displayed (snd (guard env)) = main_displayed env
       \<and> namespace (snd (guard env)) = script_namespace"
  using assms by (simp add: guard_returned dialogs_def)

text \<open>The run in which \<open>main()\<close> returns and has left no window.\<close>

theorem normal_return_no_action_witness:
  "main_result (quiet_env None) = None
   \<and> guard (quiet_env None) = (Completed, \<lparr>toplevels = [], displayed = [], calls = [Call_main],
                                       namespace = script_namespace\<rparr>)
   \<and> dialogs (snd (guard (quiet_env None))) = []"
proof -
  have h: "main_result (quiet_env None) = None"
    by (rule quiet_env_main)
  have "main_toplevels (quiet_env None) = []" "main_displayed (quiet_env None) = []"
    by (simp_all add: quiet_env_def)
  with h normal_return_no_action [OF h] show ?thesis
    by (cases "guard (quiet_env None)") simp
qed

subsection \<open>What the clause catches\<close>

text \<open>
  C8. If \<open>main()\<close> raises an exception that is not an instance of \<open>Exception\<close>
  (\<open>SystemExit\<close>, \<open>KeyboardInterrupt\<close>), the clause does not match: the exception
  leaves the guard, no dialog is invoked and no window is created.
\<close>

theorem non_Exception_propagates:
  assumes "main_result env = Some e" and "\<not> isinstance_Exception e"
  shows "fst (guard env) = Propagated e
       \<and> calls (snd (guard env)) = [Call_main]
       \<and> dialogs (snd (guard env)) = []
       \<and> count_list (calls (snd (guard env))) Call_Tk = 0
       \<and> toplevels (snd (guard env)) = main_toplevels env"
  using assms by (simp add: guard_uncaught dialogs_def)

text \<open>\<open>main()\<close> is interrupted from the keyboard, and \<open>main()\<close> calls \<open>sys.exit()\<close>.\<close>

theorem non_Exception_propagates_witness:
  "main_result (quiet_env (Some keyboard_interrupt)) = Some keyboard_interrupt
   \<and> \<not> isinstance_Exception keyboard_interrupt
   \<and> fst (guard (quiet_env (Some keyboard_interrupt))) = Propagated keyboard_interrupt
   \<and> calls (snd (guard (quiet_env (Some keyboard_interrupt)))) = [Call_main]
   \<and> main_result (quiet_env (Some system_exit)) = Some system_exit
   \<and> \<not> isinstance_Exception system_exit
   \<and> fst (guard (quiet_env (Some system_exit))) = Propagated system_exit
   \<and> calls (snd (guard (quiet_env (Some system_exit)))) = [Call_main]"
proof -
  have h: "main_result (quiet_env (Some keyboard_interrupt)) = Some keyboard_interrupt"
    by (rule quiet_env_main)
  have n: "\<not> isinstance_Exception keyboard_interrupt"
    by (simp add: isinstance_Exception_def keyboard_interrupt_def)
  have h': "main_result (quiet_env (Some system_exit)) = Some system_exit"
    by (rule quiet_env_main)
  have n': "\<not> isinstance_Exception system_exit"
    by (simp add: isinstance_Exception_def system_exit_def)
  from h n non_Exception_propagates [OF h n] h' n' non_Exception_propagates [OF h' n']
  show ?thesis
    by simp
qed






subsection \<open>The dialog\<close>

text \<open>
  C2. Whatever \<open>main()\<close> raised, the message of every error dialog the guard invokes
  contains \<open>logs/avantixrpa.log\<close> and the whole text of \<open>format_exc()\<close>. For
  \<^verbatim>\<open>RuntimeError("boom")\<close>, once \<open>tk.Tk()\<close> and \<open>withdraw()\<close> have returned,
  there is one dialog and its message contains \<open>boom\<close> and \<open>logs/avantixrpa.log\<close>.
\<close>

theorem dialog_body_contents:
  assumes "main_result env = Some e"
  shows "(\<forall>(t, b) \<in> set (dialogs (snd (guard env))).
            sublist (ascii ''logs/avantixrpa.log'') b \<and> sublist (format_exc e) b)
       \<and> (exc_class e = RuntimeError \<and> exc_str e = ascii ''boom''
            \<and> Tk_raises env = None \<and> withdraw_raises env = None \<longrightarrow>
          (\<exists>t b. dialogs (snd (guard env)) = [(t, b)]
                 \<and> sublist (ascii ''boom'') b \<and> sublist (ascii ''logs/avantixrpa.log'') b))"
proof (cases "isinstance_Exception e")
  case False
  with assms show ?thesis
    by (auto simp: guard_dialogs_uncaught isinstance_Exception_def)
next
  case True
  have "sublist (exc_str e) (dialog_message (format_exc e))"
    using str_in_format_exc err_in_message by (rule sublist_trans)
  with assms True show ?thesis
    by (auto simp: guard_dialogs log_path_in_message err_in_message)
qed

text \<open>The run of \<^verbatim>\<open>raise RuntimeError("boom")\<close>.\<close>

theorem dialog_body_contents_witness:
  "main_result (quiet_env (Some boom)) = Some boom
   \<and> dialogs (snd (guard (quiet_env (Some boom))))
       = [(dialog_title, dialog_message (format_exc boom))]
   \<and> sublist (ascii ''boom'') (dialog_message (format_exc boom))
   \<and> sublist (ascii ''logs/avantixrpa.log'') (dialog_message (format_exc boom))
   \<and> sublist (format_exc boom) (dialog_message (format_exc boom))"
proof -
  have h: "main_result (quiet_env (Some boom)) = Some boom"
    by (rule quiet_env_main)
  have d: "dialogs (snd (guard (quiet_env (Some boom))))
           = [(dialog_title, dialog_message (format_exc boom))]"
    using quiet_env_returns [of "Some boom"]
    by (simp add: guard_handled [OF h boom_caught] dialogs_def)
  have b: "exc_class boom = RuntimeError" "exc_str boom = ascii ''boom''"
    "Tk_raises (quiet_env (Some boom)) = None" "withdraw_raises (quiet_env (Some boom)) = None"
    by (simp_all add: boom_def quiet_env_def)
  from dialog_body_contents [OF h] d b h show ?thesis
    by simp
qed

text \<open>
  C5. Every error dialog of the guard has the title \<open>AVANTIXRPA\<close>, a space, and the
  five characters U+8D77 U+52D5 U+30A8 U+30E9 U+30FC (Japanese for "startup error"). Its
  message is two fixed lines with no line feed inside either (in Japanese: an error
  occurred while AVANTIXRPA was starting; see logs/avantixrpa.log for details), an empty
  line, and then the traceback text as \<open>format_exc()\<close> returned it. The texts are
  written out as code points; 10 is the line feed.
\<close>

theorem dialog_layout:
  assumes "main_result env = Some e" and "(t, b) \<in> set (dialogs (snd (guard env)))"
  shows "let line1 = map of_char ''AVANTIXRPA ''
                     @ [0x306E, 0x8D77, 0x52D5, 0x4E2D, 0x306B, 0x30A8, 0x30E9, 0x30FC,
                        0x304C, 0x767A, 0x751F, 0x3057, 0x307E, 0x3057, 0x305F, 0x3002];
             line2 = [0x8A73, 0x3057, 0x304F, 0x306F]
                     @ map of_char '' logs/avantixrpa.log ''
                     @ [0x3092, 0x78BA, 0x8A8D, 0x3057, 0x3066, 0x304F, 0x3060, 0x3055,
                        0x3044, 0x3002]
         in t = map of_char ''AVANTIXRPA '' @ [0x8D77, 0x52D5, 0x30A8, 0x30E9, 0x30FC]
          \<and> b = line1 @ [10] @ line2 @ [10, 10] @ format_exc e
          \<and> 10 \<notin> set line1 \<and> 10 \<notin> set line2"
proof (cases "isinstance_Exception e")
  case False
  with assms show ?thesis
    by (simp add: guard_dialogs_uncaught)
next
  case True
  with assms have "t = dialog_title" and "b = dialog_message (format_exc e)"
    by (simp_all add: guard_dialogs split: if_splits)
  then show ?thesis
    by (simp add: dialog_title_def startup_error_ja_def dialog_message_def message_line1_def
          message_line2_def ascii_def NL_def Let_def)
qed

text \<open>The dialog of the run of \<^verbatim>\<open>raise RuntimeError("boom")\<close>.\<close>

theorem dialog_layout_witness:
  "main_result (quiet_env (Some boom)) = Some boom
   \<and> (dialog_title, dialog_message (format_exc boom))
       \<in> set (dialogs (snd (guard (quiet_env (Some boom)))))
   \<and> dialog_title = map of_char ''AVANTIXRPA '' @ [0x8D77, 0x52D5, 0x30A8, 0x30E9, 0x30FC]
   \<and> dialog_message (format_exc boom) =
       (map of_char ''AVANTIXRPA ''
        @ [0x306E, 0x8D77, 0x52D5, 0x4E2D, 0x306B, 0x30A8, 0x30E9, 0x30FC,
           0x304C, 0x767A, 0x751F, 0x3057, 0x307E, 0x3057, 0x305F, 0x3002])
       @ [10]
       @ ([0x8A73, 0x3057, 0x304F, 0x306F]
          @ map of_char '' logs/avantixrpa.log ''
          @ [0x3092, 0x78BA, 0x8A8D, 0x3057, 0x3066, 0x304F, 0x3060, 0x3055, 0x3044, 0x3002])
       @ [10, 10] @ format_exc boom"
proof -
  have h: "main_result (quiet_env (Some boom)) = Some boom"
    by (rule quiet_env_main)
  have d: "(dialog_title, dialog_message (format_exc boom))
           \<in> set (dialogs (snd (guard (quiet_env (Some boom)))))"
    using quiet_env_returns [of "Some boom"]
    by (simp add: guard_handled [OF h boom_caught] dialogs_def)
  from dialog_layout [OF h d] h d show ?thesis
    by (simp add: Let_def)
qed

subsection \<open>The host window\<close>









end
